theory Spec2Isabelle
  imports Main "HOL-Library.Sublist" "HOL-Library.AList"
begin

section \<open>JavaScript values and string primitives used by index.js\<close>

text \<open>
  Strings are lists of code units below 256. Thrown values are only ever inspected
  through their \<open>message\<close> property, so an exception is its kind and its message.
\<close>

datatype js_error = Error string | TypeError string

fun message :: "js_error \<Rightarrow> string" where
  "message (Error m) = m"
| "message (TypeError m) = m"

text \<open>\<open>String.prototype.startsWith\<close>.\<close>

definition startsWith :: "string \<Rightarrow> string \<Rightarrow> bool" where
  "startsWith s p = prefix p s"

text \<open>\<open>String.prototype.includes\<close>: \<open>sub\<close> occurs somewhere in \<open>s\<close>.\<close>

fun includes_str :: "string \<Rightarrow> string \<Rightarrow> bool" where
  "includes_str [] sub = (sub = [])"
| "includes_str (c # cs) sub = (prefix sub (c # cs) \<or> includes_str cs sub)"

text \<open>
  \<open>String.prototype.split\<close> with a string separator: \<open>cur\<close> holds the current
  segment, reversed. An empty separator splits into single code units.
\<close>

function split_loop :: "string \<Rightarrow> string \<Rightarrow> string \<Rightarrow> string list" where
  "split_loop sep cur [] = [rev cur]"
| "split_loop sep cur (c # cs) =
     (if sep \<noteq> [] \<and> prefix sep (c # cs)
      then rev cur # split_loop sep [] (drop (length sep) (c # cs))
      else split_loop sep (c # cur) cs)"
  by pat_completeness auto
termination
  by (relation "measure (\<lambda>(sep, cur, s). length s)") auto

definition split_str :: "string \<Rightarrow> string \<Rightarrow> string list" where
  "split_str s sep = (if sep = [] then map (\<lambda>c. [c]) s else split_loop sep [] s)"

text \<open>Reading index 1 of an array: \<open>undefined\<close> (here \<open>None\<close>) when it has fewer than two elements.\<close>

fun index1 :: "'a list \<Rightarrow> 'a option" where
  "index1 (x # y # ys) = Some y"
| "index1 xs = None"

text \<open>\<open>String.prototype.trim\<close>: the white space and line terminators below 256.\<close>

definition is_space :: "char \<Rightarrow> bool" where
  "is_space c = (c \<in> set [CHR 0x09, CHR 0x0A, CHR 0x0B, CHR 0x0C, CHR 0x0D, CHR 0x20, CHR 0xA0])"

definition trim :: "string \<Rightarrow> string" where
  "trim s = rev (dropWhile is_space (rev (dropWhile is_space s)))"

text \<open>
  \<open>String.prototype.substring(start, end)\<close>: both indices are clamped to
  \<open>[0, length]\<close> and swapped when \<open>start > end\<close>.
\<close>

definition substring :: "string \<Rightarrow> int \<Rightarrow> int \<Rightarrow> string" where
  "substring s start end' =
     (let len = int (length s);
          a = min (max start 0) len;
          b = min (max end' 0) len;
          lo = min a b;
          hi = max a b
      in take (nat (hi - lo)) (drop (nat lo) s))"

text \<open>Template-literal rendering of a non-negative integer such as \<open>Date.now()\<close>.\<close>

definition digit_char :: "nat \<Rightarrow> char" where
  "digit_char d = ''0123456789'' ! d"

fun toString :: "nat \<Rightarrow> string" where
  "toString n = (if n < 10 then [digit_char n] else toString (n div 10) @ [digit_char (n mod 10)])"

declare toString.simps [simp del]

section \<open>The download listener: the \<open>ytDlpEvent\<close> handler\<close>

text \<open>
  The listener of lines 216-220. It returns the new value of \<open>downloadedFile\<close>, or the
  TypeError raised by \<open>undefined.trim()\<close> when the data contains \<open>Destination:\<close> but
  not the separator \<open>Destination: \<close> (with the space).
\<close>

definition is_destination :: "string \<times> string \<Rightarrow> bool" where
  "is_destination ev = (fst ev = ''download'' \<and> includes_str (snd ev) ''Destination:'')"

definition announced_path :: "string \<Rightarrow> js_error + string" where
  "announced_path eventData =
     (case index1 (split_str eventData ''Destination: '') of
        None \<Rightarrow> Inl (TypeError ''Cannot read properties of undefined'')
      | Some p \<Rightarrow> Inr (trim p))"

definition on_ytDlpEvent :: "string \<Rightarrow> string \<Rightarrow> string \<Rightarrow> js_error + string" where
  "on_ytDlpEvent eventType eventData downloadedFile =
     (if is_destination (eventType, eventData) then announced_path eventData
      else Inr downloadedFile)"

text \<open>The events of one run of the tool, delivered to the listener in order.\<close>

fun emit_ytDlpEvents :: "(string \<times> string) list \<Rightarrow> string \<Rightarrow> js_error + string" where
  "emit_ytDlpEvents [] downloadedFile = Inr downloadedFile"
| "emit_ytDlpEvents (ev # evs) downloadedFile =
     (case on_ytDlpEvent (fst ev) (snd ev) downloadedFile of
        Inl e \<Rightarrow> Inl e
      | Inr d \<Rightarrow> emit_ytDlpEvents evs d)"

section \<open>JSON values and \<open>JSON.parse\<close>\<close>

text \<open>
  The values \<open>JSON.parse\<close> produces. A number keeps its literal text (its floating-point
  value is not interpreted, so a literal the code would round or read as infinite is
  outside what this model describes). An object is an association list with distinct keys in
  insertion order; the reordering of integer-like keys is not modelled, and the
  theorems below read objects through \<open>map_of\<close> and their key sets only.
\<close>

datatype json =
    JNull
  | JBool bool
  | JNumber string
  | JString string
  | JArray "json list"
  | JObject "(string \<times> json) list"

datatype token =
    TLBrace | TRBrace | TLBracket | TRBracket | TColon | TComma
  | TString string | TNumber string | TTrue | TFalse | TNull

definition is_json_ws :: "char \<Rightarrow> bool" where
  "is_json_ws c = (c \<in> set [CHR 0x20, CHR 0x09, CHR 0x0A, CHR 0x0D])"

definition is_digit :: "char \<Rightarrow> bool" where
  "is_digit c = (c \<in> set ''0123456789'')"

definition is_num_char :: "char \<Rightarrow> bool" where
  "is_num_char c = (c \<in> set ''0123456789+-.eE'')"

text \<open>The JSON number grammar: \<open>-? (0 | [1-9][0-9]*) (.[0-9]+)? ([eE][+-]?[0-9]+)?\<close>.\<close>

definition valid_exp :: "string \<Rightarrow> bool" where
  "valid_exp r =
     (if r = [] then True
      else if hd r = CHR ''e'' \<or> hd r = CHR ''E'' then
        (let r1 = tl r;
             r2 = (if take 1 r1 = ''+'' \<or> take 1 r1 = ''-'' then drop 1 r1 else r1)
         in r2 \<noteq> [] \<and> list_all is_digit r2)
      else False)"

definition valid_frac :: "string \<Rightarrow> bool" where
  "valid_frac r =
     (if take 1 r = ''.''
      then takeWhile is_digit (drop 1 r) \<noteq> [] \<and> valid_exp (dropWhile is_digit (drop 1 r))
      else valid_exp r)"

definition valid_number :: "string \<Rightarrow> bool" where
  "valid_number s =
     (let s1 = (if take 1 s = ''-'' then drop 1 s else s);
          ds = takeWhile is_digit s1
      in ds \<noteq> [] \<and> (if 1 < length ds then hd ds \<noteq> CHR ''0'' else True)
         \<and> valid_frac (dropWhile is_digit s1))"

definition hex_digit :: "char \<Rightarrow> nat option" where
  "hex_digit c =
     (let n = (of_char c :: nat) in
      if 48 \<le> n \<and> n \<le> 57 then Some (n - 48)
      else if 65 \<le> n \<and> n \<le> 70 then Some (n - 55)
      else if 97 \<le> n \<and> n \<le> 102 then Some (n - 87)
      else None)"

definition hex4 :: "char \<Rightarrow> char \<Rightarrow> char \<Rightarrow> char \<Rightarrow> nat option" where
  "hex4 a b c d =
     (case (hex_digit a, hex_digit b, hex_digit c, hex_digit d) of
        (Some x, Some y, Some z, Some w) \<Rightarrow> Some (((x * 16 + y) * 16 + z) * 16 + w)
      | _ \<Rightarrow> None)"

definition unescape :: "char \<Rightarrow> char option" where
  "unescape e =
     (if e = CHR 0x22 then Some (CHR 0x22)
      else if e = CHR 0x5C then Some (CHR 0x5C)
      else if e = CHR ''/'' then Some (CHR ''/'')
      else if e = CHR ''b'' then Some (CHR 0x08)
      else if e = CHR ''f'' then Some (CHR 0x0C)
      else if e = CHR ''n'' then Some (CHR 0x0A)
      else if e = CHR ''r'' then Some (CHR 0x0D)
      else if e = CHR ''t'' then Some (CHR 0x09)
      else None)"

text \<open>
  The body of a string literal after its opening quote: the decoded text and the input
  left after the closing quote. An escape \<open>\uXXXX\<close> of a code unit of 256 or more has
  no counterpart among this model's strings and is refused.
\<close>

fun lex_string :: "string \<Rightarrow> string \<Rightarrow> (string \<times> string) option" where
  "lex_string acc [] = None"
| "lex_string acc (c # cs) =
     (if c = CHR 0x22 then Some (rev acc, cs)
      else if c = CHR 0x5C then
        (case cs of
           [] \<Rightarrow> None
         | e # cs1 \<Rightarrow>
             if e = CHR ''u'' then
               (case cs1 of
                  h1 # h2 # h3 # h4 # cs2 \<Rightarrow>
                    (case hex4 h1 h2 h3 h4 of
                       None \<Rightarrow> None
                     | Some n \<Rightarrow> if n < 256 then lex_string (char_of n # acc) cs2 else None)
                | _ \<Rightarrow> None)
             else
               (case unescape e of
                  None \<Rightarrow> None
                | Some ch \<Rightarrow> lex_string (ch # acc) cs1))
      else if (of_char c :: nat) < 32 then None
      else lex_string (c # acc) cs)"

lemma lex_string_shorter:
  "lex_string acc s = Some (r, rest) \<Longrightarrow> length rest < length s"
proof (induction acc s arbitrary: r rest rule: lex_string.induct)
  case (1 acc)
  then show ?case by simp
next
  case (2 acc c cs)
  show ?case
  proof (cases "c = CHR 0x22")
    case True
    with "2.prems" show ?thesis by simp
  next
    case quote: False
    show ?thesis
    proof (cases "c = CHR 0x5C")
      case False
      with quote "2.prems" "2.IH"(3) [of r rest] show ?thesis
        by (auto split: if_splits)
    next
      case True
      then obtain e cs1 where cs: "cs = e # cs1"
        using quote "2.prems" by (cases cs) auto
      show ?thesis
      proof (cases "e = CHR ''u''")
        case False
        then obtain ch where ch: "unescape e = Some ch"
          and run: "lex_string (ch # acc) cs1 = Some (r, rest)"
          using quote True cs "2.prems" by (auto split: option.splits)
        from "2.IH"(2) [OF quote True cs False ch run] show ?thesis
          using cs by simp
      next
        case u: True
        then obtain h1 h2 h3 h4 cs2 n where cs1: "cs1 = h1 # h2 # h3 # h4 # cs2"
          and n: "hex4 h1 h2 h3 h4 = Some n" and small: "n < 256"
          and run: "lex_string (char_of n # acc) cs2 = Some (r, rest)"
          using quote True cs "2.prems"
          by (auto split: list.splits option.splits if_splits)
        from "2.IH"(1) [OF quote True cs u cs1 refl refl refl n small run] show ?thesis
          using cs cs1 by simp
      qed
    qed
  qed
qed

function lex :: "string \<Rightarrow> token list option" where
  "lex [] = Some []"
| "lex (c # cs) =
     (if is_json_ws c then lex cs
      else if c = CHR ''{'' then map_option ((#) TLBrace) (lex cs)
      else if c = CHR ''}'' then map_option ((#) TRBrace) (lex cs)
      else if c = CHR ''['' then map_option ((#) TLBracket) (lex cs)
      else if c = CHR '']'' then map_option ((#) TRBracket) (lex cs)
      else if c = CHR '':'' then map_option ((#) TColon) (lex cs)
      else if c = CHR '','' then map_option ((#) TComma) (lex cs)
      else if c = CHR 0x22 then
        (case lex_string [] cs of
           None \<Rightarrow> None
         | Some (s, rest) \<Rightarrow> map_option ((#) (TString s)) (lex rest))
      else if is_num_char c then
        (if valid_number (c # takeWhile is_num_char cs)
         then map_option ((#) (TNumber (c # takeWhile is_num_char cs)))
                (lex (dropWhile is_num_char cs))
         else None)
      else if prefix ''true'' (c # cs) then
        map_option ((#) TTrue) (lex (drop 3 cs))
      else if prefix ''false'' (c # cs) then
        map_option ((#) TFalse) (lex (drop 4 cs))
      else if prefix ''null'' (c # cs) then
        map_option ((#) TNull) (lex (drop 3 cs))
      else None)"
  by pat_completeness auto
termination
proof (relation "measure length")
  fix c :: char and cs x2 x y
  assume "lex_string [] cs = Some x2" and "(x, y) = x2"
  then show "(y, c # cs) \<in> measure length"
    using lex_string_shorter [of "[]" cs x y] by simp
next
  fix c :: char and cs
  have "length (dropWhile is_num_char cs) \<le> length cs"
    by (rule length_dropWhile_le)
  then show "(dropWhile is_num_char cs, c # cs) \<in> measure length"
    by simp
qed auto

text \<open>
  The grammar over tokens, as a stack machine: a frame per open array or object, and a
  mode saying which tokens may come next. A repeated key keeps its first position and
  takes the last value.
\<close>

datatype frame =
    FArray "json list"
  | FObject "(string \<times> json) list"
  | FMember "(string \<times> json) list" string

datatype mode = MValue | MValueOrEnd | MKey | MKeyOrEnd | MColon | MAfter | MDone json

fun deliver :: "json \<Rightarrow> frame list \<Rightarrow> (mode \<times> frame list) option" where
  "deliver v [] = Some (MDone v, [])"
| "deliver v (FArray xs # st) = Some (MAfter, FArray (xs @ [v]) # st)"
| "deliver v (FMember ms k # st) = Some (MAfter, FObject (AList.update k v ms) # st)"
| "deliver v (FObject ms # st) = None"

fun close_array :: "frame list \<Rightarrow> (mode \<times> frame list) option" where
  "close_array (FArray xs # st) = deliver (JArray xs) st"
| "close_array st = None"

fun close_object :: "frame list \<Rightarrow> (mode \<times> frame list) option" where
  "close_object (FObject ms # st) = deliver (JObject ms) st"
| "close_object st = None"

fun value_token :: "token \<Rightarrow> frame list \<Rightarrow> (mode \<times> frame list) option" where
  "value_token (TString s) st = deliver (JString s) st"
| "value_token (TNumber n) st = deliver (JNumber n) st"
| "value_token TTrue st = deliver (JBool True) st"
| "value_token TFalse st = deliver (JBool False) st"
| "value_token TNull st = deliver JNull st"
| "value_token TLBracket st = Some (MValueOrEnd, FArray [] # st)"
| "value_token TLBrace st = Some (MKeyOrEnd, FObject [] # st)"
| "value_token t st = None"

fun key_token :: "token \<Rightarrow> frame list \<Rightarrow> (mode \<times> frame list) option" where
  "key_token (TString k) (FObject ms # st) = Some (MColon, FMember ms k # st)"
| "key_token t st = None"

fun after_value :: "token \<Rightarrow> frame list \<Rightarrow> (mode \<times> frame list) option" where
  "after_value TComma (FArray xs # st) = Some (MValue, FArray xs # st)"
| "after_value TComma (FObject ms # st) = Some (MKey, FObject ms # st)"
| "after_value TRBracket st = close_array st"
| "after_value TRBrace st = close_object st"
| "after_value t st = None"

fun parse_step :: "token \<Rightarrow> mode \<times> frame list \<Rightarrow> (mode \<times> frame list) option" where
  "parse_step t (MValue, st) = value_token t st"
| "parse_step t (MValueOrEnd, st) = (if t = TRBracket then close_array st else value_token t st)"
| "parse_step t (MKey, st) = key_token t st"
| "parse_step t (MKeyOrEnd, st) = (if t = TRBrace then close_object st else key_token t st)"
| "parse_step t (MColon, st) = (if t = TColon then Some (MValue, st) else None)"
| "parse_step t (MAfter, st) = after_value t st"
| "parse_step t (MDone v, st) = None"

fun parse_tokens :: "token list \<Rightarrow> mode \<times> frame list \<Rightarrow> json option" where
  "parse_tokens [] (m, st) = (case m of MDone v \<Rightarrow> Some v | _ \<Rightarrow> None)"
| "parse_tokens (t # ts) s =
     (case parse_step t s of None \<Rightarrow> None | Some s' \<Rightarrow> parse_tokens ts s')"

text \<open>\<open>JSON.parse\<close>: \<open>None\<close> stands for the SyntaxError it throws.\<close>

definition JSON_parse :: "string \<Rightarrow> json option" where
  "JSON_parse s = (case lex s of None \<Rightarrow> None | Some ts \<Rightarrow> parse_tokens ts (MValue, []))"

section \<open>The world of one request\<close>

text \<open>
  The external tools are opaque: one request sees the clock, the events and the exit of
  the download tool, the exit of the transcoder, the reply of the model, what the tools
  did to the file system while the handler awaited them, and which deletions the
  operating system refuses. The file system is the set of paths that exist. A run of
  the download tool is its \<open>ytDlpEvent\<close> events followed by one \<open>close\<close> or one
  \<open>error\<close> event; a run of the transcoder ends with \<open>end\<close> or \<open>error\<close>.
\<close>

datatype tool = YtDlp | Ffmpeg | Gemini

datatype yt_exit = Close | ProcessError js_error

datatype ffmpeg_exit = End | FfmpegError js_error

datatype generation = Reply string | GenerateFails js_error

record env =
  dirname :: string
  now :: nat
  fs0 :: "string set"
  yt_events :: "(string \<times> string) list"
  yt_exit :: yt_exit
  yt_files :: "string \<Rightarrow> string set \<Rightarrow> string set"
  ffmpeg_exit :: ffmpeg_exit
  ffmpeg_files :: "string \<Rightarrow> string \<Rightarrow> string set \<Rightarrow> string set"
  generation :: generation
  unlink_error :: "string \<Rightarrow> js_error option"

text \<open>
  What the handler has done so far: the files on disk, its variable \<open>downloadedFile\<close>,
  the lines written by \<open>console.log\<close> and \<open>console.error\<close> (an error object is
  rendered as its message), the tools started, and the response sent.
\<close>

record state =
  files :: "string set"
  downloadedFile :: string
  console :: "string list"
  called :: "tool list"
  response :: "(nat \<times> json) option"

text \<open>
  How an awaited step ends: with a value, with an exception the handler's
  \<open>try\<close> sees, or with an exception thrown inside an event listener, which no promise
  carries: the handler is never resumed.
\<close>

datatype 'a outcome = Value 'a | Throws js_error | Uncaught js_error

text \<open>How the handler ends: it returns, its promise rejects, or it is never resumed.\<close>

datatype completion = Returned | Threw js_error | ListenerThrew js_error

definition console_log :: "string \<Rightarrow> state \<Rightarrow> state" where
  "console_log line st = st\<lparr>console := console st @ [line]\<rparr>"

definition respond :: "nat \<Rightarrow> json \<Rightarrow> state \<Rightarrow> state" where
  "respond status body st = st\<lparr>response := Some (status, body)\<rparr>"

text \<open>\<open>path.join\<close> of a normalized directory and a plain name, with the POSIX separator.\<close>

definition path_join :: "string \<Rightarrow> string \<Rightarrow> string" where
  "path_join dir name = dir @ ''/'' @ name"

definition tempDir :: "env \<Rightarrow> string" where
  "tempDir env = path_join (dirname env) ''temp''"

definition uniqueId :: "env \<Rightarrow> nat" where
  "uniqueId env = now env"

definition audioFilePath :: "env \<Rightarrow> string" where
  "audioFilePath env = path_join (tempDir env) (toString (uniqueId env) @ ''.wav'')"

definition outputTemplate :: "env \<Rightarrow> string" where
  "outputTemplate env = path_join (tempDir env) (toString (uniqueId env) @ ''.%(ext)s'')"

text \<open>
  \<open>fs.unlinkSync\<close> removes the path, or throws: the error the operating system
  gives for this path, or ENOENT when the path is not there.
\<close>

definition existsSync :: "string set \<Rightarrow> string \<Rightarrow> bool" where
  "existsSync fs p = (p \<in> fs)"

definition unlinkSync :: "env \<Rightarrow> string \<Rightarrow> string set \<Rightarrow> js_error + string set" where
  "unlinkSync env p fs =
     (case unlink_error env p of
        Some e \<Rightarrow> Inl e
      | None \<Rightarrow> if p \<in> fs then Inr (fs - {p}) else Inl (Error ''ENOENT''))"

section \<open>Step 1: the download promise (lines 210-231)\<close>

definition download :: "env \<Rightarrow> string \<Rightarrow> state \<Rightarrow> unit outcome \<times> state" where
  "download env url st =
     (let st1 = st\<lparr>called := called st @ [YtDlp],
                   files := yt_files env (outputTemplate env) (files st)\<rparr>
      in case emit_ytDlpEvents (yt_events env) (downloadedFile st1) of
           Inl e \<Rightarrow> (Uncaught e, st1)
         | Inr d \<Rightarrow>
             (case yt_exit env of
                Close \<Rightarrow>
                  if d = [] then (Throws (Error ''DownloadFailed''), st1\<lparr>downloadedFile := d\<rparr>)
                  else (Value (), st1\<lparr>downloadedFile := d\<rparr>)
              | ProcessError err \<Rightarrow> (Throws err, st1\<lparr>downloadedFile := d\<rparr>)))"

section \<open>Step 2: the transcode promise (lines 241-255)\<close>

definition transcode :: "env \<Rightarrow> state \<Rightarrow> unit outcome \<times> state" where
  "transcode env st =
     (let st1 = st\<lparr>called := called st @ [Ffmpeg],
                   files := ffmpeg_files env (downloadedFile st) (audioFilePath env) (files st)\<rparr>
      in case ffmpeg_exit env of
           End \<Rightarrow> (Value (), console_log ''[2/3] Conversion successful.'' st1)
         | FfmpegError err \<Rightarrow>
             (Throws err, console_log (''[2/3] FFmpeg error: '' @ message err) st1))"

section \<open>Step 3: \<open>transcribeAndTranslateWithGemini\<close> (lines 291-328)\<close>

text \<open>Lines 312-314: the fence is cut off only when the reply starts with the marker.\<close>

definition strip_fence :: "string \<Rightarrow> string" where
  "strip_fence jsonResponse =
     (if startsWith jsonResponse ''```json''
      then trim (substring jsonResponse 7 (int (length jsonResponse) - 3))
      else jsonResponse)"

text \<open>
  The body of the outer \<open>try\<close>: reading the file fails when it is not there, the call
  of the model may fail, and the inner \<open>catch\<close> turns a parse error into its own Error.
\<close>

definition gemini_try :: "env \<Rightarrow> string \<Rightarrow> state \<Rightarrow> (js_error + json) \<times> state" where
  "gemini_try env filePath st =
     (if \<not> existsSync (files st) filePath then (Inl (Error ''ENOENT''), st)
      else
        let st1 = st\<lparr>called := called st @ [Gemini]\<rparr> in
        case generation env of
          GenerateFails e \<Rightarrow> (Inl e, st1)
        | Reply text \<Rightarrow>
            let jsonResponse = strip_fence text in
            case JSON_parse jsonResponse of
              Some v \<Rightarrow> (Inr v, st1)
            | None \<Rightarrow>
                (Inl (Error ''Received an invalid response format from the AI model.''),
                 console_log (''Failed to parse JSON response from Gemini: '' @ jsonResponse) st1))"

text \<open>The outer \<open>catch\<close> (lines 324-327) replaces whatever the body threw.\<close>

definition transcribeAndTranslateWithGemini ::
  "env \<Rightarrow> string \<Rightarrow> state \<Rightarrow> (js_error + json) \<times> state" where
  "transcribeAndTranslateWithGemini env filePath st =
     (case gemini_try env filePath st of
        (Inr v, st1) \<Rightarrow> (Inr v, st1)
      | (Inl error, st1) \<Rightarrow>
          (Inl (Error ''Failed to transcribe or translate audio with Gemini.''),
           console_log (''Error during Gemini processing: '' @ message error) st1))"

text \<open>The first revision of the function (lines 133-155) returns the trimmed reply.\<close>

definition transcribeAndTranslateWithGemini_rev1 ::
  "env \<Rightarrow> string \<Rightarrow> state \<Rightarrow> (js_error + string) \<times> state" where
  "transcribeAndTranslateWithGemini_rev1 env filePath st =
     (if \<not> existsSync (files st) filePath
      then (Inl (Error ''Failed to transcribe or translate audio with Gemini.''),
            console_log (''Error during Gemini processing: '' @ ''ENOENT'') st)
      else
        let st1 = st\<lparr>called := called st @ [Gemini]\<rparr> in
        case generation env of
          GenerateFails e \<Rightarrow>
            (Inl (Error ''Failed to transcribe or translate audio with Gemini.''),
             console_log (''Error during Gemini processing: '' @ message e) st1)
        | Reply text \<Rightarrow> (Inr (trim text), st1))"

section \<open>The handler of \<open>POST /transcribe\<close> (lines 196-283)\<close>

text \<open>
  Object spread \<open>{ sourceUrl: url, ...result }\<close>: the own enumerable properties of the
  value are copied in order, a key already present keeping its place and taking the
  new value.
\<close>

fun own_properties :: "json \<Rightarrow> (string \<times> json) list" where
  "own_properties (JObject ms) = ms"
| "own_properties (JArray xs) = zip (map toString [0..<length xs]) xs"
| "own_properties (JString s) = zip (map toString [0..<length s]) (map (\<lambda>c. JString [c]) s)"
| "own_properties v = []"

definition spread :: "(string \<times> json) list \<Rightarrow> json \<Rightarrow> (string \<times> json) list" where
  "spread obj v = fold (\<lambda>kv. AList.update (fst kv) (snd kv)) (own_properties v) obj"

text \<open>Step 3 and the response of lines 258-266; the first revision's, lines 107-115.\<close>

definition infer_and_respond :: "env \<Rightarrow> string \<Rightarrow> state \<Rightarrow> unit outcome \<times> state" where
  "infer_and_respond env url st =
     (case transcribeAndTranslateWithGemini env (audioFilePath env)
             (console_log (''[3/3] Starting transcription and translation for: ''
                @ audioFilePath env) st) of
        (Inl e, st1) \<Rightarrow> (Throws e, st1)
      | (Inr result, st1) \<Rightarrow>
          (Value (),
           respond 200 (JObject (spread [(''sourceUrl'', JString url)] result))
             (console_log ''[3/3] Process complete.'' st1)))"

definition infer_and_respond_rev1 :: "env \<Rightarrow> string \<Rightarrow> state \<Rightarrow> unit outcome \<times> state" where
  "infer_and_respond_rev1 env url st =
     (case transcribeAndTranslateWithGemini_rev1 env (audioFilePath env)
             (console_log (''[3/3] Starting transcription and translation for: ''
                @ audioFilePath env) st) of
        (Inl e, st1) \<Rightarrow> (Throws e, st1)
      | (Inr transcript, st1) \<Rightarrow>
          (Value (),
           respond 200 (JObject [(''sourceUrl'', JString url), (''transcript'', JString transcript)])
             (console_log ''[3/3] Process complete.'' st1)))"

text \<open>
  The \<open>try\<close> block. Both revisions have the same steps 1 and 2 and differ in step 3,
  which is the parameter \<open>step3\<close>.
\<close>

definition try_steps ::
  "(env \<Rightarrow> string \<Rightarrow> state \<Rightarrow> unit outcome \<times> state) \<Rightarrow> env \<Rightarrow> string \<Rightarrow> state
     \<Rightarrow> unit outcome \<times> state" where
  "try_steps step3 env url st0 =
     (case download env url (console_log (''[1/3] Downloading audio from: '' @ url) st0) of
        (Uncaught e, st) \<Rightarrow> (Uncaught e, st)
      | (Throws e, st) \<Rightarrow> (Throws e, st)
      | (Value _, st) \<Rightarrow>
          if downloadedFile st = [] \<or> \<not> existsSync (files st) (downloadedFile st)
          then (Throws (Error ''DownloadFailed''), st)
          else
            (case transcode env
                    (console_log ''[2/3] Converting to WAV format...''
                      (console_log (''[1/3] Download complete. File saved to: ''
                         @ downloadedFile st) st)) of
               (Uncaught e, st2) \<Rightarrow> (Uncaught e, st2)
             | (Throws e, st2) \<Rightarrow> (Throws e, st2)
             | (Value _, st2) \<Rightarrow> step3 env url st2))"

definition catch_block :: "js_error \<Rightarrow> state \<Rightarrow> state" where
  "catch_block error st =
     (if message error = ''DownloadFailed''
      then respond 400 (JObject [(''error'', JString
             ''Content could not be downloaded. The URL may be invalid, private, or the content is unavailable.'')]) st
      else respond 500 (JObject [(''error'', JString ''An internal server error occurred.''),
                                 (''details'', JString (message error))])
             (console_log (''An error occurred during the transcription process: ''
                @ message error) st))"

text \<open>The response of the \<open>catch\<close> block to an error whose message is \<open>DownloadFailed\<close>.\<close>

definition download_failed_response :: "(nat \<times> json) option" where
  "download_failed_response = Some (400, JObject [(''error'', JString
     ''Content could not be downloaded. The URL may be invalid, private, or the content is unavailable.'')])"

definition finally_block :: "env \<Rightarrow> state \<Rightarrow> completion \<times> state" where
  "finally_block env st =
     (case (if downloadedFile st \<noteq> [] \<and> existsSync (files st) (downloadedFile st)
            then unlinkSync env (downloadedFile st) (files st)
            else Inr (files st)) of
        Inl e \<Rightarrow> (Threw e, st)
      | Inr fs1 \<Rightarrow>
          (case (if existsSync fs1 (audioFilePath env)
                 then unlinkSync env (audioFilePath env) fs1
                 else Inr fs1) of
             Inl e \<Rightarrow> (Threw e, st\<lparr>files := fs1\<rparr>)
           | Inr fs2 \<Rightarrow> (Returned, console_log ''Temporary files cleaned up.'' (st\<lparr>files := fs2\<rparr>))))"

text \<open>
  The handler. The \<open>url\<close> of the request body is absent or a string; \<open>!url\<close> holds of
  an absent and of an empty one.
\<close>

definition initial_state :: "env \<Rightarrow> state" where
  "initial_state env =
     \<lparr>files = fs0 env, downloadedFile = [], console = [], called = [], response = None\<rparr>"

definition handler ::
  "(env \<Rightarrow> string \<Rightarrow> state \<Rightarrow> unit outcome \<times> state) \<Rightarrow> env \<Rightarrow> string option
     \<Rightarrow> completion \<times> state" where
  "handler step3 env body_url =
     (let st0 = initial_state env;
          missing = (Returned,
            respond 400 (JObject [(''error'', JString ''Instagram Reel URL is required.'')]) st0)
      in case body_url of
           None \<Rightarrow> missing
         | Some url \<Rightarrow>
             if url = [] then missing
             else
               (case try_steps step3 env url st0 of
                  (Uncaught e, st) \<Rightarrow> (ListenerThrew e, st)
                | (Value _, st) \<Rightarrow> finally_block env st
                | (Throws error, st) \<Rightarrow> finally_block env (catch_block error st)))"

definition post_transcribe :: "env \<Rightarrow> string option \<Rightarrow> completion \<times> state" where
  "post_transcribe = handler infer_and_respond"

definition post_transcribe_rev1 :: "env \<Rightarrow> string option \<Rightarrow> completion \<times> state" where
  "post_transcribe_rev1 = handler infer_and_respond_rev1"

section \<open>Concrete runs\<close>

text \<open>
  One request whose three steps succeed, and variations of it: the runs at which the
  theorems below are instantiated.
\<close>

definition reel_url :: string where
  "reel_url = ''https://valid.example/reel''"

definition raw_file :: string where
  "raw_file = ''/app/temp/1700000000000.webm''"

definition fenced_reply :: string where
  \<open>fenced_reply = ''```json'' @ [CHR 0x0A]
     @ ''{"language_detected":"es","original_transcript":"hola","english_translation":"hello"}''
     @ [CHR 0x0A] @ ''```''\<close>

definition run_ok :: env where
  "run_ok = \<lparr>dirname = ''/app'', now = 1700000000000, fs0 = {},
     yt_events = [(''youtube'', ''Extracting URL''),
                  (''download'', ''Destination: /app/temp/1700000000000.webm'')],
     yt_exit = Close,
     yt_files = (\<lambda>template fs. insert raw_file fs),
     ffmpeg_exit = End,
     ffmpeg_files = (\<lambda>input output fs. insert output fs),
     generation = Reply fenced_reply,
     unlink_error = (\<lambda>p. None)\<rparr>"

text \<open>The operating system refuses to delete the downloaded file.\<close>

definition run_refused :: env where
  "run_refused = run_ok\<lparr>unlink_error :=
     (\<lambda>p. if p = raw_file then Some (Error ''EPERM: operation not permitted'') else None)\<rparr>"

text \<open>The operating system refuses to delete the waveform file.\<close>

definition run_refused_wav :: env where
  "run_refused_wav = run_ok\<lparr>unlink_error :=
     (\<lambda>p. if p = ''/app/temp/1700000000000.wav''
          then Some (Error ''EPERM: operation not permitted'') else None)\<rparr>"

text \<open>The download tool cannot be started: an \<open>error\<close> event and no other.\<close>

definition run_spawn_failed :: env where
  "run_spawn_failed = run_ok\<lparr>yt_events := [],
     yt_exit := ProcessError (Error ''spawn yt-dlp ENOENT''),
     yt_files := (\<lambda>template fs. fs)\<rparr>"

text \<open>The tool exits without announcing a destination; it announces a file that is not there.\<close>

definition run_silent :: env where
  "run_silent = run_ok\<lparr>yt_events := [(''youtube'', ''Extracting URL'')],
     yt_files := (\<lambda>template fs. fs)\<rparr>"

definition run_vanished :: env where
  "run_vanished = run_ok\<lparr>yt_files := (\<lambda>template fs. fs)\<rparr>"

text \<open>
  The tool exits with a non-zero code on a private link, having announced no
  destination: the exit reaches the handler as an \<open>error\<close> event.
\<close>

definition run_exit_error :: env where
  "run_exit_error = run_ok\<lparr>yt_events := [(''youtube'', ''Extracting URL'')],
     yt_exit := ProcessError (Error ''Error code: 1''),
     yt_files := (\<lambda>template fs. fs)\<rparr>"

text \<open>The tool announces two destinations.\<close>

definition run_two_destinations :: env where
  "run_two_destinations = run_ok\<lparr>yt_events :=
     [(''download'', ''Destination: /app/temp/1700000000000.f251.webm''),
      (''download'', ''100% of 1.00MiB''),
      (''download'', ''Destination: /app/temp/1700000000000.webm'')]\<rparr>"

text \<open>The transcoder fails and leaves a partial output file behind.\<close>

definition run_transcode_failed :: env where
  "run_transcode_failed = run_ok\<lparr>ffmpeg_exit := FfmpegError (Error ''ffmpeg exited with code 1'')\<rparr>"

text \<open>Replies of the model: an empty object, no JSON at all, a failed call, another \<open>sourceUrl\<close>.\<close>

definition run_empty_object :: env where
  "run_empty_object = run_ok\<lparr>generation := Reply ''{}''\<rparr>"

definition run_unparseable :: env where
  "run_unparseable = run_ok\<lparr>generation := Reply ''Sorry, I hear no speech.''\<rparr>"

definition run_quota :: env where
  "run_quota = run_ok\<lparr>generation := GenerateFails (Error ''429 quota exceeded'')\<rparr>"

definition run_shadowed :: env where
  \<open>run_shadowed = run_ok\<lparr>generation := Reply ''{"sourceUrl":"https://other.example/"}''\<rparr>\<close>

section \<open>Evaluating the model on a concrete run\<close>

lemmas string_defs =
  startsWith_def split_str_def trim_def is_space_def substring_def digit_char_def toString.simps

lemmas json_defs =
  JSON_parse_def is_json_ws_def is_num_char_def valid_number_def valid_frac_def valid_exp_def
  is_digit_def hex_digit_def hex4_def unescape_def

lemmas path_defs = path_join_def tempDir_def uniqueId_def audioFilePath_def outputTemplate_def

lemmas listener_defs = on_ytDlpEvent_def is_destination_def announced_path_def

lemmas handler_defs =
  post_transcribe_def post_transcribe_rev1_def handler_def initial_state_def try_steps_def
  download_def transcode_def infer_and_respond_def infer_and_respond_rev1_def
  transcribeAndTranslateWithGemini_def transcribeAndTranslateWithGemini_rev1_def gemini_try_def
  strip_fence_def catch_block_def finally_block_def unlinkSync_def existsSync_def
  console_log_def respond_def spread_def insert_Diff_if

lemmas run_defs =
  reel_url_def raw_file_def fenced_reply_def run_ok_def run_refused_def run_refused_wav_def
  run_spawn_failed_def run_exit_error_def
  run_silent_def run_vanished_def run_two_destinations_def run_transcode_failed_def
  run_empty_object_def run_unparseable_def run_quota_def run_shadowed_def

lemma run_ok_result:
  "post_transcribe run_ok (Some reel_url) =
     (Returned,
      \<lparr>files = {}, downloadedFile = ''/app/temp/1700000000000.webm'',
       console =
         [''[1/3] Downloading audio from: https://valid.example/reel'',
          ''[1/3] Download complete. File saved to: /app/temp/1700000000000.webm'',
          ''[2/3] Converting to WAV format...'',
          ''[2/3] Conversion successful.'',
          ''[3/3] Starting transcription and translation for: /app/temp/1700000000000.wav'',
          ''[3/3] Process complete.'', ''Temporary files cleaned up.''],
       called = [YtDlp, Ffmpeg, Gemini],
       response =
         Some (200,
           JObject
            [(''sourceUrl'', JString ''https://valid.example/reel''),
             (''language_detected'', JString ''es''),
             (''original_transcript'', JString ''hola''),
             (''english_translation'', JString ''hello'')])\<rparr>)"
  by (simp add: handler_defs path_defs listener_defs string_defs json_defs run_defs)

lemma run_refused_result:
  "post_transcribe run_refused (Some reel_url) =
     (Threw (Error ''EPERM: operation not permitted''),
      \<lparr>files = {''/app/temp/1700000000000.wav'', ''/app/temp/1700000000000.webm''},
       downloadedFile = ''/app/temp/1700000000000.webm'',
       console =
         [''[1/3] Downloading audio from: https://valid.example/reel'',
          ''[1/3] Download complete. File saved to: /app/temp/1700000000000.webm'',
          ''[2/3] Converting to WAV format...'',
          ''[2/3] Conversion successful.'',
          ''[3/3] Starting transcription and translation for: /app/temp/1700000000000.wav'',
          ''[3/3] Process complete.''],
       called = [YtDlp, Ffmpeg, Gemini],
       response =
         Some (200,
           JObject
            [(''sourceUrl'', JString ''https://valid.example/reel''),
             (''language_detected'', JString ''es''),
             (''original_transcript'', JString ''hola''),
             (''english_translation'', JString ''hello'')])\<rparr>)"
  by (simp add: handler_defs path_defs listener_defs string_defs json_defs run_defs)

lemma run_empty_object_result:
  "post_transcribe run_empty_object (Some reel_url) =
     (Returned,
      \<lparr>files = {}, downloadedFile = ''/app/temp/1700000000000.webm'',
       console =
         [''[1/3] Downloading audio from: https://valid.example/reel'',
          ''[1/3] Download complete. File saved to: /app/temp/1700000000000.webm'',
          ''[2/3] Converting to WAV format...'',
          ''[2/3] Conversion successful.'',
          ''[3/3] Starting transcription and translation for: /app/temp/1700000000000.wav'',
          ''[3/3] Process complete.'', ''Temporary files cleaned up.''],
       called = [YtDlp, Ffmpeg, Gemini],
       response = Some (200, JObject [(''sourceUrl'', JString ''https://valid.example/reel'')])\<rparr>)"
  by (simp add: handler_defs path_defs listener_defs string_defs json_defs run_defs)

lemma run_unparseable_result:
  "post_transcribe run_unparseable (Some reel_url) =
     (Returned,
      \<lparr>files = {}, downloadedFile = ''/app/temp/1700000000000.webm'',
       console =
         [''[1/3] Downloading audio from: https://valid.example/reel'',
          ''[1/3] Download complete. File saved to: /app/temp/1700000000000.webm'',
          ''[2/3] Converting to WAV format...'',
          ''[2/3] Conversion successful.'',
          ''[3/3] Starting transcription and translation for: /app/temp/1700000000000.wav'',
          ''Failed to parse JSON response from Gemini: Sorry, I hear no speech.'',
          ''Error during Gemini processing: Received an invalid response format from the AI model.'',
          ''An error occurred during the transcription process: Failed to transcribe or translate audio with Gemini.'',
          ''Temporary files cleaned up.''],
       called = [YtDlp, Ffmpeg, Gemini],
       response =
         Some (500,
           JObject
            [(''error'', JString ''An internal server error occurred.''),
             (''details'', JString ''Failed to transcribe or translate audio with Gemini.'')])\<rparr>)"
  by (simp add: handler_defs path_defs listener_defs string_defs json_defs run_defs)

lemma run_quota_result:
  "post_transcribe run_quota (Some reel_url) =
     (Returned,
      \<lparr>files = {}, downloadedFile = ''/app/temp/1700000000000.webm'',
       console =
         [''[1/3] Downloading audio from: https://valid.example/reel'',
          ''[1/3] Download complete. File saved to: /app/temp/1700000000000.webm'',
          ''[2/3] Converting to WAV format...'',
          ''[2/3] Conversion successful.'',
          ''[3/3] Starting transcription and translation for: /app/temp/1700000000000.wav'',
          ''Error during Gemini processing: 429 quota exceeded'',
          ''An error occurred during the transcription process: Failed to transcribe or translate audio with Gemini.'',
          ''Temporary files cleaned up.''],
       called = [YtDlp, Ffmpeg, Gemini],
       response =
         Some (500,
           JObject
            [(''error'', JString ''An internal server error occurred.''),
             (''details'', JString ''Failed to transcribe or translate audio with Gemini.'')])\<rparr>)"
  by (simp add: handler_defs path_defs listener_defs string_defs json_defs run_defs)

lemma run_silent_result:
  "post_transcribe run_silent (Some reel_url) =
     (Returned,
      \<lparr>files = {}, downloadedFile = [],
       console =
         [''[1/3] Downloading audio from: https://valid.example/reel'',
          ''Temporary files cleaned up.''],
       called = [YtDlp],
       response =
         Some (400,
           JObject
            [(''error'',
              JString
               ''Content could not be downloaded. The URL may be invalid, private, or the content is unavailable.'')])\<rparr>)"
  by (simp add: handler_defs path_defs listener_defs string_defs run_defs)

lemma run_transcode_failed_result:
  "post_transcribe run_transcode_failed (Some reel_url) =
     (Returned,
      \<lparr>files = {}, downloadedFile = ''/app/temp/1700000000000.webm'',
       console =
         [''[1/3] Downloading audio from: https://valid.example/reel'',
          ''[1/3] Download complete. File saved to: /app/temp/1700000000000.webm'',
          ''[2/3] Converting to WAV format...'',
          ''[2/3] FFmpeg error: ffmpeg exited with code 1'',
          ''An error occurred during the transcription process: ffmpeg exited with code 1'',
          ''Temporary files cleaned up.''],
       called = [YtDlp, Ffmpeg],
       response =
         Some (500,
           JObject
            [(''error'', JString ''An internal server error occurred.''),
             (''details'', JString ''ffmpeg exited with code 1'')])\<rparr>)"
  by (simp add: handler_defs path_defs listener_defs string_defs run_defs)

lemma run_ok_result_rev1:
  "post_transcribe_rev1 run_ok (Some reel_url) =
     (Returned,
      \<lparr>files = {}, downloadedFile = ''/app/temp/1700000000000.webm'',
       console =
         [''[1/3] Downloading audio from: https://valid.example/reel'',
          ''[1/3] Download complete. File saved to: /app/temp/1700000000000.webm'',
          ''[2/3] Converting to WAV format...'',
          ''[2/3] Conversion successful.'',
          ''[3/3] Starting transcription and translation for: /app/temp/1700000000000.wav'',
          ''[3/3] Process complete.'', ''Temporary files cleaned up.''],
       called = [YtDlp, Ffmpeg, Gemini],
       response =
         Some (200,
           JObject
            [(''sourceUrl'', JString ''https://valid.example/reel''),
             (''transcript'', JString fenced_reply)])\<rparr>)"
  by (simp add: handler_defs path_defs listener_defs string_defs run_defs)

lemma run_ok_audioFilePath: "audioFilePath run_ok = ''/app/temp/1700000000000.wav''"
  by (simp add: path_defs string_defs run_defs)

section \<open>The captured destination\<close>

lemma emit_no_destination:
  "filter is_destination evs = [] \<Longrightarrow> emit_ytDlpEvents evs d0 = Inr d0"
  by (induction evs arbitrary: d0) (auto simp: on_ytDlpEvent_def split: if_splits)






section \<open>Cleanup\<close>

lemma finally_block_response: "response (snd (finally_block env st)) = response st"
  by (simp add: finally_block_def console_log_def split: sum.splits)

lemma finally_block_called: "called (snd (finally_block env st)) = called st"
  by (simp add: finally_block_def console_log_def split: sum.splits)

lemma finally_block_Returned:
  assumes "finally_block env st = (Returned, st')"
  shows "\<not> existsSync (files st') (audioFilePath env)
         \<and> (downloadedFile st' = [] \<or> \<not> existsSync (files st') (downloadedFile st'))"
  using assms
  by (auto simp: finally_block_def console_log_def unlinkSync_def existsSync_def
      split: sum.splits if_splits option.splits)

lemma handler_unfold:
  "url \<noteq> [] \<Longrightarrow> handler step3 env (Some url) =
     (case try_steps step3 env url (initial_state env) of
        (Uncaught e, st) \<Rightarrow> (ListenerThrew e, st)
      | (Value _, st) \<Rightarrow> finally_block env st
      | (Throws error, st) \<Rightarrow> finally_block env (catch_block error st))"
  by (simp add: handler_def)

lemma handler_Returned_finally:
  assumes "handler step3 env (Some url) = (Returned, st)" and "url \<noteq> []"
  shows "\<exists>st0. finally_block env st0 = (Returned, st)"
  using assms
  by (auto simp: handler_unfold split: prod.splits outcome.splits)

text \<open>
  C1: for a request with a URL, in either revision of the handler, once the handler has
  returned the normalized waveform file (the path derived from the jobId) is not on
  disk, and the downloaded media file (the path held by \<open>downloadedFile\<close>, when one
  was captured) is not on disk either. This covers every way the \<open>try\<close> block can end,
  since the hypothesis only asks that the handler returned.
\<close>

theorem temp_files_absent_after_return:
  assumes "post_transcribe env (Some url) = (Returned, st)
           \<or> post_transcribe_rev1 env (Some url) = (Returned, st)"
    and "url \<noteq> []"
  shows "\<not> existsSync (files st) (audioFilePath env)
         \<and> (downloadedFile st = [] \<or> \<not> existsSync (files st) (downloadedFile st))"
proof -
  from assms obtain st0 where "finally_block env st0 = (Returned, st)"
    unfolding post_transcribe_def post_transcribe_rev1_def
    using handler_Returned_finally by blast
  then show ?thesis
    by (rule finally_block_Returned)
qed

text \<open>
  The theorem at a run of each kind: success (in both revisions), no download, a failed
  transcode that left a partial waveform file, a failed call of the model, and a reply
  that is not JSON.
\<close>

lemma returned_pair: "fst r = Returned \<Longrightarrow> r = (Returned, snd r)"
  by (cases r) simp

theorem temp_files_absent_after_return_witness:
  "reel_url \<noteq> []
   \<and> audioFilePath run_ok = ''/app/temp/1700000000000.wav''
   \<and> fst (post_transcribe run_ok (Some reel_url)) = Returned
   \<and> \<not> existsSync (files (snd (post_transcribe run_ok (Some reel_url)))) (audioFilePath run_ok)
   \<and> downloadedFile (snd (post_transcribe run_ok (Some reel_url))) = raw_file
   \<and> \<not> existsSync (files (snd (post_transcribe run_ok (Some reel_url)))) raw_file
   \<and> fst (post_transcribe_rev1 run_ok (Some reel_url)) = Returned
   \<and> \<not> existsSync (files (snd (post_transcribe_rev1 run_ok (Some reel_url)))) (audioFilePath run_ok)
   \<and> fst (post_transcribe run_silent (Some reel_url)) = Returned
   \<and> \<not> existsSync (files (snd (post_transcribe run_silent (Some reel_url))))
         (audioFilePath run_silent)
   \<and> fst (post_transcribe run_transcode_failed (Some reel_url)) = Returned
   \<and> \<not> existsSync (files (snd (post_transcribe run_transcode_failed (Some reel_url))))
         (audioFilePath run_transcode_failed)
   \<and> fst (post_transcribe run_quota (Some reel_url)) = Returned
   \<and> \<not> existsSync (files (snd (post_transcribe run_quota (Some reel_url))))
         (audioFilePath run_quota)
   \<and> fst (post_transcribe run_unparseable (Some reel_url)) = Returned
   \<and> \<not> existsSync (files (snd (post_transcribe run_unparseable (Some reel_url))))
         (audioFilePath run_unparseable)"
proof -
  have url: "reel_url \<noteq> []"
    by (simp add: reel_url_def)
  have ok: "fst (post_transcribe run_ok (Some reel_url)) = Returned"
    and ok1: "fst (post_transcribe_rev1 run_ok (Some reel_url)) = Returned"
    and silent: "fst (post_transcribe run_silent (Some reel_url)) = Returned"
    and ffmpeg: "fst (post_transcribe run_transcode_failed (Some reel_url)) = Returned"
    and quota: "fst (post_transcribe run_quota (Some reel_url)) = Returned"
    and nojson: "fst (post_transcribe run_unparseable (Some reel_url)) = Returned"
    by (simp_all add: run_ok_result run_ok_result_rev1 run_silent_result
        run_transcode_failed_result run_quota_result run_unparseable_result)
  have raw: "downloadedFile (snd (post_transcribe run_ok (Some reel_url))) = raw_file"
    by (simp add: run_ok_result raw_file_def)
  note absent = temp_files_absent_after_return
  from absent [OF disjI1 [OF returned_pair [OF ok]] url]
    absent [OF disjI2 [OF returned_pair [OF ok1]] url]
    absent [OF disjI1 [OF returned_pair [OF silent]] url]
    absent [OF disjI1 [OF returned_pair [OF ffmpeg]] url]
    absent [OF disjI1 [OF returned_pair [OF quota]] url]
    absent [OF disjI1 [OF returned_pair [OF nojson]] url]
  show ?thesis
    using url ok ok1 silent ffmpeg quota nojson raw
    by (simp add: run_ok_audioFilePath raw_file_def)
qed

section \<open>A failed download\<close>

lemma download_Close:
  assumes "yt_exit env = Close" and "emit_ytDlpEvents (yt_events env) (downloadedFile st) = Inr d"
  shows "download env url st =
           (if d = [] then Throws (Error ''DownloadFailed'') else Value (),
            st\<lparr>called := called st @ [YtDlp],
               files := yt_files env (outputTemplate env) (files st),
               downloadedFile := d\<rparr>)"
  using assms by (simp add: download_def Let_def)

lemma try_steps_download_failed:
  assumes "yt_exit env = Close" and "emit_ytDlpEvents (yt_events env) [] = Inr d"
    and "d = [] \<or> \<not> existsSync (yt_files env (outputTemplate env) (fs0 env)) d"
  shows "\<exists>st. try_steps step3 env url (initial_state env)
           = (Throws (Error ''DownloadFailed''), st) \<and> response st = None \<and> called st = [YtDlp]"
proof (cases "d = []")
  case True
  with assms(1,2) show ?thesis
    by (simp add: try_steps_def download_Close console_log_def initial_state_def)
next
  case False
  with assms show ?thesis
    by (simp add: try_steps_def download_Close console_log_def initial_state_def)
qed

lemma handler_download_failed:
  assumes "url \<noteq> []"
    and "try_steps step3 env url (initial_state env) = (Throws (Error ''DownloadFailed''), st)"
    and "response st = None" and "called st = [YtDlp]"
  shows "response (snd (handler step3 env (Some url))) = download_failed_response
         \<and> called (snd (handler step3 env (Some url))) = [YtDlp]"
  using assms
  by (simp add: handler_unfold finally_block_response finally_block_called catch_block_def
      respond_def download_failed_response_def)

text \<open>
  When the download tool ends with the \<open>close\<close> event without having announced a
  destination, or the path it announced last is not on disk at that moment, the
  request is answered with status 400 and the download message, and the download tool
  is the only tool that was started.
\<close>

lemma close_without_download:
  assumes "url \<noteq> []" and "yt_exit env = Close"
    and "filter is_destination (yt_events env) = []
         \<or> (\<exists>d. emit_ytDlpEvents (yt_events env) [] = Inr d
               \<and> \<not> existsSync (yt_files env (outputTemplate env) (fs0 env)) d)"
  shows "response (snd (post_transcribe env (Some url))) = download_failed_response
         \<and> called (snd (post_transcribe env (Some url))) = [YtDlp]"
proof -
  from assms(3) obtain d where run: "emit_ytDlpEvents (yt_events env) [] = Inr d"
    and bad: "d = [] \<or> \<not> existsSync (yt_files env (outputTemplate env) (fs0 env)) d"
    using emit_no_destination [of "yt_events env" "[]"] by auto
  from try_steps_download_failed [OF assms(2) run bad]
  obtain st where tr: "try_steps infer_and_respond env url (initial_state env)
           = (Throws (Error ''DownloadFailed''), st)"
    and "response st = None" and "called st = [YtDlp]"
    by blast
  with handler_download_failed [OF assms(1) tr] show ?thesis
    by (simp add: post_transcribe_def)
qed

lemma close_without_download_runs:
  "reel_url \<noteq> []
   \<and> yt_exit run_silent = Close
   \<and> filter is_destination (yt_events run_silent) = []
   \<and> response (snd (post_transcribe run_silent (Some reel_url))) = download_failed_response
   \<and> called (snd (post_transcribe run_silent (Some reel_url))) = [YtDlp]
   \<and> yt_exit run_vanished = Close
   \<and> emit_ytDlpEvents (yt_events run_vanished) [] = Inr raw_file
   \<and> \<not> existsSync (yt_files run_vanished (outputTemplate run_vanished) (fs0 run_vanished)) raw_file
   \<and> response (snd (post_transcribe run_vanished (Some reel_url))) = download_failed_response
   \<and> called (snd (post_transcribe run_vanished (Some reel_url))) = [YtDlp]"
proof -
  have url: "reel_url \<noteq> []"
    by (simp add: reel_url_def)
  have silent: "yt_exit run_silent = Close" "filter is_destination (yt_events run_silent) = []"
    by (simp_all add: run_defs is_destination_def)
  have vanished: "yt_exit run_vanished = Close"
    "emit_ytDlpEvents (yt_events run_vanished) [] = Inr raw_file"
    "\<not> existsSync (yt_files run_vanished (outputTemplate run_vanished) (fs0 run_vanished)) raw_file"
    by (simp_all add: run_defs listener_defs string_defs existsSync_def)
  from vanished(2,3) have gone: "\<exists>d. emit_ytDlpEvents (yt_events run_vanished) [] = Inr d
    \<and> \<not> existsSync (yt_files run_vanished (outputTemplate run_vanished) (fs0 run_vanished)) d"
    by blast
  from close_without_download [OF url silent(1) disjI1 [OF silent(2)]]
    close_without_download [OF url vanished(1) disjI2 [OF gone]]
  show ?thesis
    using url silent vanished by simp
qed

text \<open>
  C7: the code at a run in which the tool exits with a non-zero code without having
  announced a destination. Such an exit reaches the handler as the \<open>error\<close> event,
  not as \<open>close\<close>, so the check in the \<open>close\<close> listener (the one commented as
  handling links that are invalid or private, line 224) is not run: the promise is
  rejected with the tool's own error and the request is answered 500, not with the
  download failure. No other tool is started.
\<close>

theorem exit_by_error_not_download_failed:
  "filter is_destination (yt_events run_exit_error) = []
   \<and> yt_exit run_exit_error = ProcessError (Error ''Error code: 1'')
   \<and> response (snd (post_transcribe run_exit_error (Some reel_url))) =
       Some (500, JObject [(''error'', JString ''An internal server error occurred.''),
                           (''details'', JString ''Error code: 1'')])
   \<and> response (snd (post_transcribe run_exit_error (Some reel_url))) \<noteq> download_failed_response
   \<and> called (snd (post_transcribe run_exit_error (Some reel_url))) = [YtDlp]"
  by (simp add: handler_defs path_defs listener_defs string_defs run_defs
      download_failed_response_def)




section \<open>A deletion that fails\<close>

text \<open>
  The deletion of the downloaded file is refused: the error leaves the handler, both
  files stay on disk and the last line logged is that of step 3. Nothing swallows or
  logs the deletion error.
\<close>

theorem cleanup_failure_swallowed_counterexample:
  "unlink_error run_refused raw_file = Some (Error ''EPERM: operation not permitted'')
   \<and> fst (post_transcribe run_refused (Some reel_url)) = Threw (Error ''EPERM: operation not permitted'')
   \<and> fst (post_transcribe run_refused (Some reel_url)) \<noteq> Returned
   \<and> files (snd (post_transcribe run_refused (Some reel_url)))
       = {''/app/temp/1700000000000.wav'', ''/app/temp/1700000000000.webm''}
   \<and> last (console (snd (post_transcribe run_refused (Some reel_url)))) = ''[3/3] Process complete.''"
  by (simp add: run_refused_result) (simp add: run_defs)

lemma paths_unlink_error:
  "audioFilePath (env\<lparr>unlink_error := f\<rparr>) = audioFilePath env"
  "outputTemplate (env\<lparr>unlink_error := f\<rparr>) = outputTemplate env"
  by (simp_all add: path_defs)

lemma download_unlink_error:
  "download (env\<lparr>unlink_error := f\<rparr>) url st = download env url st"
  by (simp add: download_def paths_unlink_error cong: sum.case_cong)

lemma transcode_unlink_error:
  "transcode (env\<lparr>unlink_error := f\<rparr>) st = transcode env st"
  by (simp add: transcode_def paths_unlink_error)

lemma infer_and_respond_unlink_error:
  "infer_and_respond (env\<lparr>unlink_error := f\<rparr>) url st = infer_and_respond env url st"
  by (simp add: infer_and_respond_def transcribeAndTranslateWithGemini_def gemini_try_def
      paths_unlink_error cong: if_cong)

lemma try_steps_unlink_error:
  "try_steps infer_and_respond (env\<lparr>unlink_error := f\<rparr>) url st
   = try_steps infer_and_respond env url st"
  by (simp add: try_steps_def download_unlink_error transcode_unlink_error
      infer_and_respond_unlink_error cong: prod.case_cong outcome.case_cong if_cong)

lemma finally_block_no_refusal:
  assumes "unlink_error env (downloadedFile st) = None" and "unlink_error env (audioFilePath env) = None"
  shows "fst (finally_block env st) = Returned"
  using assms
  by (auto simp: finally_block_def unlinkSync_def existsSync_def console_log_def)

lemma finally_block_Threw:
  "fst (finally_block env st) = Threw e \<Longrightarrow> \<exists>p. unlink_error env p = Some e"
  by (auto simp: finally_block_def unlinkSync_def existsSync_def
      split: if_splits option.splits sum.splits)

lemma handler_completion:
  "fst (handler step3 env body_url) = Threw e \<Longrightarrow>
   \<exists>st. fst (finally_block env st) = Threw e"
  by (auto simp: handler_def respond_def Let_def
      split: option.splits if_splits prod.splits outcome.splits)

lemma handler_response_unlink_error:
  "response (snd (handler infer_and_respond (env\<lparr>unlink_error := f\<rparr>) body_url))
   = response (snd (handler infer_and_respond env body_url))"
  by (auto simp: handler_def Let_def initial_state_def try_steps_unlink_error
      finally_block_response split: option.splits prod.splits outcome.splits)

text \<open>
  C2: the response is sent before cleanup, so it is the one of the run in which no
  deletion fails. A deletion error is not swallowed and not logged: without one the
  handler never throws; when it throws, what it throws is a deletion error. A refused
  deletion of the downloaded file ends the \<open>finally\<close> block at once with that error
  and both files stay; a refused deletion of the waveform file ends it with that
  error after the downloaded file, when it was there, has been deleted; in both cases
  nothing is logged. A file that is already gone is skipped by the existence check,
  and when no attempted deletion is refused the block removes both files, logs its
  line and returns.
\<close>

theorem cleanup_failure_propagates:
  "response (snd (post_transcribe env body_url))
     = response (snd (post_transcribe (env\<lparr>unlink_error := \<lambda>p. None\<rparr>) body_url))
   \<and> (\<forall>e. fst (post_transcribe (env\<lparr>unlink_error := \<lambda>p. None\<rparr>) body_url) \<noteq> Threw e)
   \<and> (\<forall>e. fst (post_transcribe env body_url) = Threw e \<longrightarrow> (\<exists>p. unlink_error env p = Some e))
   \<and> (\<forall>st e. downloadedFile st \<noteq> [] \<and> existsSync (files st) (downloadedFile st)
         \<and> unlink_error env (downloadedFile st) = Some e
       \<longrightarrow> finally_block env st = (Threw e, st))
   \<and> (\<forall>st e. (downloadedFile st = [] \<or> \<not> existsSync (files st) (downloadedFile st))
         \<and> existsSync (files st) (audioFilePath env)
         \<and> unlink_error env (audioFilePath env) = Some e
       \<longrightarrow> finally_block env st = (Threw e, st))
   \<and> (\<forall>st e. downloadedFile st \<noteq> [] \<and> existsSync (files st) (downloadedFile st)
         \<and> unlink_error env (downloadedFile st) = None
         \<and> existsSync (files st - {downloadedFile st}) (audioFilePath env)
         \<and> unlink_error env (audioFilePath env) = Some e
       \<longrightarrow> finally_block env st = (Threw e, st\<lparr>files := files st - {downloadedFile st}\<rparr>))
   \<and> (\<forall>st. (downloadedFile st = [] \<or> \<not> existsSync (files st) (downloadedFile st))
         \<and> \<not> existsSync (files st) (audioFilePath env)
       \<longrightarrow> finally_block env st = (Returned, console_log ''Temporary files cleaned up.'' st))
   \<and> (\<forall>st. (downloadedFile st = [] \<or> \<not> existsSync (files st) (downloadedFile st)
            \<or> unlink_error env (downloadedFile st) = None)
         \<and> unlink_error env (audioFilePath env) = None
       \<longrightarrow> finally_block env st =
             (Returned,
              console_log ''Temporary files cleaned up.''
                (st\<lparr>files := (if downloadedFile st \<noteq> []
                                   \<and> existsSync (files st) (downloadedFile st)
                                then files st - {downloadedFile st} else files st)
                               - {audioFilePath env}\<rparr>)))"
proof (intro conjI allI impI)
  show "response (snd (post_transcribe env body_url))
     = response (snd (post_transcribe (env\<lparr>unlink_error := \<lambda>p. None\<rparr>) body_url))"
    by (simp add: post_transcribe_def handler_response_unlink_error)
next
  fix e
  show "fst (post_transcribe (env\<lparr>unlink_error := \<lambda>p. None\<rparr>) body_url) \<noteq> Threw e"
  proof
    assume "fst (post_transcribe (env\<lparr>unlink_error := \<lambda>p. None\<rparr>) body_url) = Threw e"
    then obtain st where "fst (finally_block (env\<lparr>unlink_error := \<lambda>p. None\<rparr>) st) = Threw e"
      unfolding post_transcribe_def using handler_completion by blast
    then show False
      by (simp add: finally_block_no_refusal)
  qed
next
  fix e
  assume "fst (post_transcribe env body_url) = Threw e"
  then obtain st where "fst (finally_block env st) = Threw e"
    unfolding post_transcribe_def using handler_completion by blast
  then show "\<exists>p. unlink_error env p = Some e"
    by (rule finally_block_Threw)
next
  fix st :: state and e
  assume "downloadedFile st \<noteq> [] \<and> existsSync (files st) (downloadedFile st)
         \<and> unlink_error env (downloadedFile st) = Some e"
  then show "finally_block env st = (Threw e, st)"
    by (simp add: finally_block_def unlinkSync_def)
next
  fix st :: state and e
  assume "(downloadedFile st = [] \<or> \<not> existsSync (files st) (downloadedFile st))
         \<and> existsSync (files st) (audioFilePath env)
         \<and> unlink_error env (audioFilePath env) = Some e"
  then show "finally_block env st = (Threw e, st)"
    by (auto simp: finally_block_def unlinkSync_def)
next
  fix st :: state and e
  assume "downloadedFile st \<noteq> [] \<and> existsSync (files st) (downloadedFile st)
         \<and> unlink_error env (downloadedFile st) = None
         \<and> existsSync (files st - {downloadedFile st}) (audioFilePath env)
         \<and> unlink_error env (audioFilePath env) = Some e"
  then show "finally_block env st = (Threw e, st\<lparr>files := files st - {downloadedFile st}\<rparr>)"
    by (simp add: finally_block_def unlinkSync_def existsSync_def)
next
  fix st :: state
  assume "(downloadedFile st = [] \<or> \<not> existsSync (files st) (downloadedFile st))
         \<and> \<not> existsSync (files st) (audioFilePath env)"
  then show "finally_block env st = (Returned, console_log ''Temporary files cleaned up.'' st)"
    by (auto simp: finally_block_def unlinkSync_def)
next
  fix st :: state
  assume "(downloadedFile st = [] \<or> \<not> existsSync (files st) (downloadedFile st)
            \<or> unlink_error env (downloadedFile st) = None)
         \<and> unlink_error env (audioFilePath env) = None"
  then show "finally_block env st =
             (Returned,
              console_log ''Temporary files cleaned up.''
                (st\<lparr>files := (if downloadedFile st \<noteq> []
                                   \<and> existsSync (files st) (downloadedFile st)
                                then files st - {downloadedFile st} else files st)
                               - {audioFilePath env}\<rparr>))"
    by (auto simp: finally_block_def unlinkSync_def existsSync_def)
qed

lemma run_refused_wav_try:
  "try_steps infer_and_respond run_refused_wav reel_url (initial_state run_refused_wav) =
     (Value (),
      \<lparr>files = {''/app/temp/1700000000000.wav'', ''/app/temp/1700000000000.webm''},
       downloadedFile = ''/app/temp/1700000000000.webm'',
       console =
         [''[1/3] Downloading audio from: https://valid.example/reel'',
          ''[1/3] Download complete. File saved to: /app/temp/1700000000000.webm'',
          ''[2/3] Converting to WAV format...'',
          ''[2/3] Conversion successful.'',
          ''[3/3] Starting transcription and translation for: /app/temp/1700000000000.wav'',
          ''[3/3] Process complete.''],
       called = [YtDlp, Ffmpeg, Gemini],
       response =
         Some (200,
           JObject
            [(''sourceUrl'', JString ''https://valid.example/reel''),
             (''language_detected'', JString ''es''),
             (''original_transcript'', JString ''hola''),
             (''english_translation'', JString ''hello'')])\<rparr>)"
  by (simp add: handler_defs path_defs listener_defs string_defs json_defs run_defs)

lemma run_refused_wav_paths:
  "audioFilePath run_refused_wav = ''/app/temp/1700000000000.wav''"
  "unlink_error run_refused_wav ''/app/temp/1700000000000.webm'' = None"
  "unlink_error run_refused_wav ''/app/temp/1700000000000.wav''
     = Some (Error ''EPERM: operation not permitted'')"
  by (simp_all add: path_defs string_defs run_defs)

text \<open>
  The theorem at the run in which the deletion of the downloaded file is refused (both
  files stay), and at the run in which the deletion of the waveform file is refused
  (the downloaded file is deleted first, the waveform file stays).
\<close>

theorem cleanup_failure_propagates_witness:
  "downloadedFile (snd (post_transcribe run_refused (Some reel_url))) \<noteq> []
   \<and> existsSync (files (snd (post_transcribe run_refused (Some reel_url))))
         (downloadedFile (snd (post_transcribe run_refused (Some reel_url))))
   \<and> unlink_error run_refused (downloadedFile (snd (post_transcribe run_refused (Some reel_url))))
       = Some (Error ''EPERM: operation not permitted'')
   \<and> finally_block run_refused (snd (post_transcribe run_refused (Some reel_url)))
       = (Threw (Error ''EPERM: operation not permitted''),
          snd (post_transcribe run_refused (Some reel_url)))
   \<and> response (snd (post_transcribe run_refused (Some reel_url)))
       = response (snd (post_transcribe (run_refused\<lparr>unlink_error := \<lambda>p. None\<rparr>) (Some reel_url)))
   \<and> fst (post_transcribe run_refused_wav (Some reel_url))
       = Threw (Error ''EPERM: operation not permitted'')
   \<and> files (snd (post_transcribe run_refused_wav (Some reel_url)))
       = {''/app/temp/1700000000000.wav''}
   \<and> last (console (snd (post_transcribe run_refused_wav (Some reel_url))))
       = ''[3/3] Process complete.''
   \<and> response (snd (post_transcribe run_refused_wav (Some reel_url)))
       = response (snd (post_transcribe (run_refused_wav\<lparr>unlink_error := \<lambda>p. None\<rparr>)
           (Some reel_url)))"
proof -
  let ?st = "snd (post_transcribe run_refused (Some reel_url))"
  let ?e = "Error ''EPERM: operation not permitted''"
  have captured: "downloadedFile ?st \<noteq> []"
    and there: "existsSync (files ?st) (downloadedFile ?st)"
    and refused: "unlink_error run_refused (downloadedFile ?st) = Some ?e"
    by (simp_all add: run_refused_result existsSync_def) (simp add: run_defs)
  note all = cleanup_failure_propagates [of run_refused "Some reel_url"]
  from all have same: "response ?st
    = response (snd (post_transcribe (run_refused\<lparr>unlink_error := \<lambda>p. None\<rparr>) (Some reel_url)))"
    by (rule conjunct1)
  from all have "\<forall>st e. downloadedFile st \<noteq> [] \<and> existsSync (files st) (downloadedFile st)
         \<and> unlink_error run_refused (downloadedFile st) = Some e
       \<longrightarrow> finally_block run_refused st = (Threw e, st)"
    by (rule conjunct2 [THEN conjunct2, THEN conjunct2, THEN conjunct1])
  with captured there refused have raw: "finally_block run_refused ?st = (Threw ?e, ?st)"
    by blast
  let ?pre = "snd (try_steps infer_and_respond run_refused_wav reel_url
                 (initial_state run_refused_wav))"
  note all_wav = cleanup_failure_propagates [of run_refused_wav "Some reel_url"]
  from all_wav have same_wav: "response (snd (post_transcribe run_refused_wav (Some reel_url)))
    = response (snd (post_transcribe (run_refused_wav\<lparr>unlink_error := \<lambda>p. None\<rparr>)
        (Some reel_url)))"
    by (rule conjunct1)
  from all_wav have second: "\<forall>st e. downloadedFile st \<noteq> []
         \<and> existsSync (files st) (downloadedFile st)
         \<and> unlink_error run_refused_wav (downloadedFile st) = None
         \<and> existsSync (files st - {downloadedFile st}) (audioFilePath run_refused_wav)
         \<and> unlink_error run_refused_wav (audioFilePath run_refused_wav) = Some e
       \<longrightarrow> finally_block run_refused_wav st
           = (Threw e, st\<lparr>files := files st - {downloadedFile st}\<rparr>)"
    by (rule conjunct2 [THEN conjunct2, THEN conjunct2, THEN conjunct2, THEN conjunct2,
          THEN conjunct1])
  have pre: "downloadedFile ?pre \<noteq> [] \<and> existsSync (files ?pre) (downloadedFile ?pre)
         \<and> unlink_error run_refused_wav (downloadedFile ?pre) = None
         \<and> existsSync (files ?pre - {downloadedFile ?pre}) (audioFilePath run_refused_wav)
         \<and> unlink_error run_refused_wav (audioFilePath run_refused_wav) = Some ?e"
    by (simp add: run_refused_wav_try run_refused_wav_paths existsSync_def)
  from second [rule_format, OF pre]
  have fin: "finally_block run_refused_wav ?pre
             = (Threw ?e, ?pre\<lparr>files := files ?pre - {downloadedFile ?pre}\<rparr>)" .
  have url: "reel_url \<noteq> []"
    by (simp add: reel_url_def)
  have "post_transcribe run_refused_wav (Some reel_url) = finally_block run_refused_wav ?pre"
    by (simp add: post_transcribe_def handler_unfold [OF url] run_refused_wav_try)
  with fin have wav: "post_transcribe run_refused_wav (Some reel_url)
             = (Threw ?e, ?pre\<lparr>files := files ?pre - {downloadedFile ?pre}\<rparr>)"
    by simp
  have wav_facts: "fst (post_transcribe run_refused_wav (Some reel_url)) = Threw ?e"
    "files (snd (post_transcribe run_refused_wav (Some reel_url)))
       = {''/app/temp/1700000000000.wav''}"
    "last (console (snd (post_transcribe run_refused_wav (Some reel_url))))
       = ''[3/3] Process complete.''"
    unfolding wav by (simp_all add: run_refused_wav_try insert_Diff_if)
  from captured there refused raw same wav_facts same_wav show ?thesis
    by (intro conjI)
qed

section \<open>The reply of the model\<close>

text \<open>
  C5: the code at the reply \<open>{}\<close>, valid JSON without any of the three keys. The
  function is described as returning an object with language, original transcript and
  translation (lines 286-290), but it returns whatever the reply parses to: here the
  empty object. The run is a success, answered 200 with a body that holds
  \<open>sourceUrl\<close> alone; nothing treats the reply as malformed.
\<close>

theorem missing_keys_accepted:
  "generation run_empty_object = Reply ''{}''
   \<and> JSON_parse (strip_fence ''{}'') = Some (JObject [])
   \<and> fst (transcribeAndTranslateWithGemini run_empty_object (audioFilePath run_empty_object)
         \<lparr>files = {audioFilePath run_empty_object}, downloadedFile = [], console = [],
          called = [], response = None\<rparr>) = Inr (JObject [])
   \<and> response (snd (post_transcribe run_empty_object (Some reel_url)))
       = Some (200, JObject [(''sourceUrl'', JString ''https://valid.example/reel'')])"
  by (simp add: run_empty_object_result)
     (simp add: run_defs strip_fence_def string_defs json_defs
        transcribeAndTranslateWithGemini_def gemini_try_def existsSync_def)

text \<open>
  C4: the code at a reply that is not JSON, and at a failed call of the model. The
  inner \<open>catch\<close> throws its own Error for the parse failure, but the outer \<open>catch\<close>
  replaces it: both runs end with the same message and the same 500 response, so
  the caller of \<open>transcribeAndTranslateWithGemini\<close> cannot tell the two kinds apart.
  The unparseable text is logged and is not part of the response.
\<close>

theorem parse_failure_indistinguishable:
  "generation run_unparseable = Reply ''Sorry, I hear no speech.''
   \<and> JSON_parse (strip_fence ''Sorry, I hear no speech.'') = None
   \<and> generation run_quota = GenerateFails (Error ''429 quota exceeded'')
   \<and> response (snd (post_transcribe run_unparseable (Some reel_url)))
       = Some (500,
           JObject
            [(''error'', JString ''An internal server error occurred.''),
             (''details'', JString ''Failed to transcribe or translate audio with Gemini.'')])
   \<and> response (snd (post_transcribe run_quota (Some reel_url)))
       = response (snd (post_transcribe run_unparseable (Some reel_url)))
   \<and> console (snd (post_transcribe run_unparseable (Some reel_url))) ! 5
       = ''Failed to parse JSON response from Gemini: Sorry, I hear no speech.''"
  by (simp add: run_unparseable_result run_quota_result)
     (simp add: run_defs strip_fence_def string_defs json_defs)

lemma fenced_reply_stripped:
  \<open>strip_fence fenced_reply =
     ''{"language_detected":"es","original_transcript":"hola","english_translation":"hello"}''\<close>
  by (simp add: strip_fence_def fenced_reply_def string_defs)

lemma fenced_reply_parsed:
  "JSON_parse (strip_fence fenced_reply) =
     Some (JObject [(''language_detected'', JString ''es''),
                    (''original_transcript'', JString ''hola''),
                    (''english_translation'', JString ''hello'')])"
  unfolding fenced_reply_stripped by (simp add: json_defs)

text \<open>
  C8: the reply that is the \<open>json\<close>-tagged fence around the minified object is
  stripped and parsed to the object with exactly the three embedded values; a reply
  that does not begin with the marker \<open>```json\<close> is left as it is.
\<close>

theorem fenced_reply_parses:
  "JSON_parse (strip_fence fenced_reply) =
     Some (JObject [(''language_detected'', JString ''es''),
                    (''original_transcript'', JString ''hola''),
                    (''english_translation'', JString ''hello'')])
   \<and> (\<forall>reply. \<not> startsWith reply ''```json'' \<longrightarrow> strip_fence reply = reply)"
  by (simp add: fenced_reply_parsed) (simp add: strip_fence_def)

theorem fenced_reply_parses_witness:
  "\<not> startsWith ''``` json {}'' ''```json'' \<and> strip_fence ''``` json {}'' = ''``` json {}''
   \<and> \<not> startsWith ('' '' @ fenced_reply) ''```json''
   \<and> strip_fence ('' '' @ fenced_reply) = '' '' @ fenced_reply
   \<and> JSON_parse (strip_fence ('' '' @ fenced_reply)) = None"
proof -
  have a: "\<not> startsWith ''``` json {}'' ''```json''"
    and b: "\<not> startsWith ('' '' @ fenced_reply) ''```json''"
    by (simp_all add: startsWith_def)
  have c: "JSON_parse ('' '' @ fenced_reply) = None"
    by (simp add: fenced_reply_def json_defs)
  from fenced_reply_parses have "\<forall>reply. \<not> startsWith reply ''```json'' \<longrightarrow> strip_fence reply = reply"
    by (rule conjunct2)
  with a b c show ?thesis
    by simp
qed

section \<open>The jobId\<close>

lemma digit_char_inj: "a < 10 \<Longrightarrow> b < 10 \<Longrightarrow> digit_char a = digit_char b \<Longrightarrow> a = b"
proof -
  assume "a < 10" "b < 10" "digit_char a = digit_char b"
  moreover have "distinct ''0123456789''" by simp
  ultimately show "a = b"
    unfolding digit_char_def by (simp add: nth_eq_iff_index_eq)
qed

lemma toString_nonempty: "toString n \<noteq> []"
  by (subst toString.simps) simp

lemma toString_inj: "toString n = toString m \<Longrightarrow> n = m"
proof (induction n arbitrary: m rule: toString.induct)
  case (1 n)
  show ?case
  proof (cases "n < 10")
    case small: True
    show ?thesis
    proof (cases "m < 10")
      case True
      with small "1.prems" show ?thesis
        by (simp add: toString.simps [of n] toString.simps [of m] digit_char_inj)
    next
      case False
      with small "1.prems" toString_nonempty [of "m div 10"] show ?thesis
        by (simp add: toString.simps [of n] toString.simps [of m])
    qed
  next
    case big: False
    show ?thesis
    proof (cases "m < 10")
      case True
      with big "1.prems" toString_nonempty [of "n div 10"] show ?thesis
        by (simp add: toString.simps [of n] toString.simps [of m])
    next
      case False
      with big "1.prems" have "toString (n div 10) = toString (m div 10)"
        and "digit_char (n mod 10) = digit_char (m mod 10)"
        by (simp_all add: toString.simps [of n] toString.simps [of m])
      with "1.IH" [OF big] have "n div 10 = m div 10" and "n mod 10 = m mod 10"
        by (auto intro: digit_char_inj)
      then show ?thesis by (metis div_mult_mod_eq)
    qed
  qed
qed

lemma audioFilePath_collision:
  "audioFilePath (env\<lparr>now := t1\<rparr>) = audioFilePath (env\<lparr>now := t2\<rparr>) \<longleftrightarrow> t1 = t2"
  by (auto simp: audioFilePath_def tempDir_def path_join_def uniqueId_def dest: toString_inj)

lemma outputTemplate_collision:
  "outputTemplate (env\<lparr>now := t1\<rparr>) = outputTemplate (env\<lparr>now := t2\<rparr>) \<longleftrightarrow> t1 = t2"
  by (auto simp: outputTemplate_def tempDir_def path_join_def uniqueId_def dest: toString_inj)

text \<open>
  C9: the jobId is the millisecond clock reading. Two requests get the same waveform
  path and the same download template exactly when they read the same millisecond, so
  requests handled within one millisecond share their temporary files: here the
  cleanup of a request whose download failed deletes the waveform file of the other.
\<close>

theorem same_millisecond_same_paths:
  "(audioFilePath (env\<lparr>now := t1\<rparr>) = audioFilePath (env\<lparr>now := t2\<rparr>) \<longleftrightarrow> t1 = t2)
   \<and> (outputTemplate (env\<lparr>now := t1\<rparr>) = outputTemplate (env\<lparr>now := t2\<rparr>) \<longleftrightarrow> t1 = t2)
   \<and> uniqueId run_silent = uniqueId run_ok
   \<and> audioFilePath run_silent = audioFilePath run_ok
   \<and> files (snd (finally_block run_silent
         \<lparr>files = {audioFilePath run_ok}, downloadedFile = [], console = [],
          called = [YtDlp], response = download_failed_response\<rparr>)) = {}"
  by (simp add: audioFilePath_collision outputTemplate_collision)
     (simp add: finally_block_def unlinkSync_def existsSync_def console_log_def
        path_defs run_defs)

section \<open>The response to a successful run\<close>

text \<open>
  C10: the code at a reply whose only key is \<open>sourceUrl\<close>. The reply is spread over
  \<open>{ sourceUrl: url }\<close> as it is, although the function that produced it is described
  as returning an object with language, original transcript and translation (lines
  286-290): the run succeeds, the body has none of the three fields, and its
  \<open>sourceUrl\<close> is the model's value, not the URL of the request. At the reply that
  has exactly the three fields, the body is the echoed URL and the three values.
\<close>

theorem reply_properties_reach_body:
  "fst (try_steps infer_and_respond run_shadowed reel_url (initial_state run_shadowed)) = Value ()
   \<and> response (snd (post_transcribe run_shadowed (Some reel_url)))
       = Some (200, JObject [(''sourceUrl'', JString ''https://other.example/'')])
   \<and> reel_url \<noteq> ''https://other.example/''
   \<and> response (snd (post_transcribe run_ok (Some reel_url)))
       = Some (200, JObject [(''sourceUrl'', JString reel_url),
                             (''language_detected'', JString ''es''),
                             (''original_transcript'', JString ''hola''),
                             (''english_translation'', JString ''hello'')])"
  by (simp add: run_ok_result)
     (simp add: handler_defs path_defs listener_defs string_defs json_defs run_defs)

end
